theory Spec2Isabelle
  imports Main "HOL-Library.AList"
begin

section \<open>Declarations, types and the environment\<close>

text \<open>
  The interpreter core consumes parsed declaration nodes. A node carries a \<open>kind\<close> and
  kind-specific fields; the kinds the dispatcher \<open>Type.make\<close> looks at are \<open>range\<close>,
  \<open>record\<close>, \<open>either\<close>, \<open>alias\<close> and \<open>generic\<close>, every other kind is collected in
  \<open>OtherKind\<close>. A field of an \<open>either\<close> node is an \<open>enumvariant\<close> node (an identifier only)
  or a node with an identifier and a nested type.
  Numbers are the integer literals of the modelling language.
\<close>

datatype decl =
    Range int int
  | Record "(string \<times> decl) list"
  | Either "variantdecl list"
  | Alias string
  | Generic string "decl list" decl
  | OtherKind string
and variantdecl =
    EnumVariant string
  | RecordVariant string decl

text \<open>
  A \<open>Type\<close> object is immutable once its constructor has returned, so it is a value here.
  What makes it an object is its identity: \<open>tid\<close> is the allocation stamp the object
  receives when it is created, and JavaScript's \<open>==\<close> on two Type objects is equality of
  stamps. \<open>tname\<close> is the optional display name. An \<open>EitherVariant\<close> is a Type as well;
  its \<open>parenttype\<close> is the stamp of the EitherType that owns it, and \<open>recordtype\<close> is
  \<open>None\<close> where the JavaScript attribute is undefined (an enum variant).
\<close>

datatype ty =
    RangeType (tid: nat) (tname: "string option") (low: int) (high: int)
  | RecordType (tid: nat) (tname: "string option") (fieldtypes: "(string \<times> ty) list")
  | EitherType (tid: nat) (tname: "string option") (variants: "variant list")
  | ArrayType (tid: nat) (tname: "string option") (valuetype: ty) (indextype: ty)
and variant =
    EitherVariant (vid: nat) (vname: string) (parenttype: nat) (recordtype: "ty option")

text \<open>
  Every variant owns exactly one \<open>EitherTag\<close>, created in the variant's constructor from
  the variant itself and its name; the tag is never modified. The tag of a variant is
  therefore a function of the variant, and two tags are the same object exactly when
  their variants carry the same stamp.
\<close>

datatype tag = EitherTag (tag_type: variant) (tag_name: string)

definition tag_of :: "variant \<Rightarrow> tag" where
  "tag_of v = EitherTag v (vname v)"

definition same_tag :: "tag \<Rightarrow> tag \<Rightarrow> bool" where
  "same_tag a b = (vid (tag_type a) = vid (tag_type b))"

text \<open>
  Errors. The monolithic source throws plain \<open>Error\<close> objects that differ in their
  message only; each throw site is one constructor here, named after the condition:
  \<open>OutOfRange\<close> for "Cannot assign value of v to range ...", \<open>UnknownType\<close> for
  "Unknown type n" of an alias, \<open>UnknownGeneric\<close> for "Unknown type 'base'" of a generic,
  \<open>UnknownKind\<close> for the final throw of \<open>Type.make\<close>. \<open>Internal\<close> is
  \<open>errors.Internal\<close> of the either module. \<open>TypeError\<close>, \<open>ReferenceError\<close> and
  \<open>RangeError\<close> are the errors of the JavaScript runtime itself (a property of
  \<open>undefined\<close> is read, a call of something that is no function; an identifier that was
  never declared; an array of an invalid length).

  \<open>Unmodelled\<close> is no error of the program. The state of the model holds value objects
  of the four shapes their classes give them; where a step of the program leaves an
  object that has none of these shapes (an attribute overwritten by a child, an
  attribute deleted, an inherited function copied into a property, a write that ends in
  the \<open>__proto__\<close> setter), the model stops with \<open>Unmodelled\<close> and says nothing about
  what the program does from there.
\<close>

datatype error =
    OutOfRange int
  | UnknownType string
  | UnknownGeneric string
  | UnknownKind
  | Internal
  | TypeError
  | ReferenceError
  | RangeError
  | Unmodelled

text \<open>
  A variable binding of an environment holds a Value: an \<open>EitherTag\<close> (the constant of an
  enum variant) or a reference to a mutable value object.
\<close>

datatype var = TagVar tag | ValueVar nat

text \<open>
  Modelled from the spec: the class \<open>Environment\<close> (environment.js) is not among the
  sources. An environment maps names to Types and names to Values and has an optional
  parent; \<open>assignType\<close> and \<open>assignVar\<close> install in the local scope only and overwrite an
  existing local name; \<open>getType\<close> and \<open>getVar\<close> check the local scope and then delegate
  up the parent chain, and answer "not found" (\<open>undefined\<close>, here \<open>None\<close>) at the root.
\<close>

datatype environment =
  Environment (types: "(string \<times> ty) list") (vars: "(string \<times> var) list")
    (parent: "environment option")

fun assignType :: "environment \<Rightarrow> string \<Rightarrow> ty \<Rightarrow> environment" where
  "assignType (Environment ts vs p) n t = Environment (AList.update n t ts) vs p"

fun assignVar :: "environment \<Rightarrow> string \<Rightarrow> var \<Rightarrow> environment" where
  "assignVar (Environment ts vs p) n v = Environment ts (AList.update n v vs) p"

fun getType :: "environment \<Rightarrow> string \<Rightarrow> ty option" where
  "getType (Environment ts vs p) n =
     (case map_of ts n of
        Some t \<Rightarrow> Some t
      | None \<Rightarrow> (case p of None \<Rightarrow> None | Some e \<Rightarrow> getType e n))"


section \<open>Type construction\<close>

text \<open>
  \<open>Type.make(decl, env, name)\<close> receives the environment by reference, hands the same
  reference to every nested call (\<open>this.env\<close>), and the constructor of an enum variant
  writes to it. The environment is therefore part of the state that is passed along,
  together with the next free allocation stamp. An exception leaves the state as it is at
  the throw, so the state is returned with the error as well.

  The dispatcher is \<open>Type.make\<close>. Its \<open>either\<close> case constructs the \<open>EitherType\<close> of the
  either module, whose variants call back into the dispatcher for their nested type
  (the module requires it as \<open>factory.js\<close>). The monolithic file still carries an earlier
  pair of either classes, with \<open>fieldtypes\<close> of \<open>{name, type}\<close> and an assignment by
  variant name that builds a default value on every switch; the either module replaces
  them and is what is modelled here.
  A constructor stamps the new object before it builds the parts.
\<close>

record world =
  env :: environment
  next_id :: nat

fun make :: "decl \<Rightarrow> string option \<Rightarrow> world \<Rightarrow> (error + ty) \<times> world"
and map_fields :: "(string \<times> decl) list \<Rightarrow> world \<Rightarrow> (error + (string \<times> ty) list) \<times> world"
and map_variants :: "variantdecl list \<Rightarrow> nat \<Rightarrow> world \<Rightarrow> (error + variant list) \<times> world"
and new_EitherVariant :: "variantdecl \<Rightarrow> nat \<Rightarrow> world \<Rightarrow> (error + variant) \<times> world"
where
  "make (Range lo hi) name w =
     (Inr (RangeType (next_id w) name lo hi), w\<lparr>next_id := Suc (next_id w)\<rparr>)"
| "make (Record fs) name w =
     (case map_fields fs (w\<lparr>next_id := Suc (next_id w)\<rparr>) of
        (Inl e, w') \<Rightarrow> (Inl e, w')
      | (Inr fts, w') \<Rightarrow> (Inr (RecordType (next_id w) name fts), w'))"
| "make (Either fs) name w =
     (case map_variants fs (next_id w) (w\<lparr>next_id := Suc (next_id w)\<rparr>) of
        (Inl e, w') \<Rightarrow> (Inl e, w')
      | (Inr vs, w') \<Rightarrow> (Inr (EitherType (next_id w) name vs), w'))"
| "make (Alias n) name w =
     (case getType (env w) n of
        None \<Rightarrow> (Inl (UnknownType n), w)
      | Some t \<Rightarrow> (Inr t, w))"
| "make (Generic base args indexBy) name w =
     (if base = ''Array'' then
        (case args of
           [] \<Rightarrow> (Inl TypeError, w\<lparr>next_id := Suc (next_id w)\<rparr>)
         | a # _ \<Rightarrow>
             (case make a None (w\<lparr>next_id := Suc (next_id w)\<rparr>) of
                (Inl e, w1) \<Rightarrow> (Inl e, w1)
              | (Inr vt, w1) \<Rightarrow>
                  (case make indexBy None w1 of
                     (Inl e, w2) \<Rightarrow> (Inl e, w2)
                   | (Inr it, w2) \<Rightarrow> (Inr (ArrayType (next_id w) name vt it), w2))))
      else (Inl (UnknownGeneric base), w))"
| "make (OtherKind k) name w = (Inl UnknownKind, w)"
| "map_fields [] w = (Inr [], w)"
| "map_fields ((n, d) # fs) w =
     (case make d None w of
        (Inl e, w1) \<Rightarrow> (Inl e, w1)
      | (Inr t, w1) \<Rightarrow>
          (case map_fields fs w1 of
             (Inl e, w2) \<Rightarrow> (Inl e, w2)
           | (Inr fts, w2) \<Rightarrow> (Inr ((n, t) # fts), w2)))"
| "map_variants [] p w = (Inr [], w)"
| "map_variants (f # fs) p w =
     (case new_EitherVariant f p w of
        (Inl e, w1) \<Rightarrow> (Inl e, w1)
      | (Inr v, w1) \<Rightarrow>
          (case map_variants fs p w1 of
             (Inl e, w2) \<Rightarrow> (Inl e, w2)
           | (Inr vs, w2) \<Rightarrow> (Inr (v # vs), w2)))"
| "new_EitherVariant (EnumVariant n) p w =
     (Inr (EitherVariant (next_id w) n p None),
      w\<lparr>next_id := Suc (next_id w),
        env := assignVar (env w) n (TagVar (tag_of (EitherVariant (next_id w) n p None)))\<rparr>)"
| "new_EitherVariant (RecordVariant n d) p w =
     (case make d None (w\<lparr>next_id := Suc (next_id w)\<rparr>) of
        (Inl e, w') \<Rightarrow> (Inl e, w')
      | (Inr t, w') \<Rightarrow> (Inr (EitherVariant (next_id w) n p (Some t)), w'))"

text \<open>
  The \<open>typedecl\<close> branch of \<open>load\<close>:
  \<open>env.assignType(decl.id.value, Type.make(decl.type, env, decl.id))\<close>.
\<close>

definition load_typedecl :: "string \<Rightarrow> decl \<Rightarrow> world \<Rightarrow> (error + unit) \<times> world" where
  "load_typedecl n d w =
     (case make d (Some n) w of
        (Inl e, w') \<Rightarrow> (Inl e, w')
      | (Inr t, w') \<Rightarrow> (Inr (), w'\<lparr>env := assignType (env w') n t\<rparr>))"

section \<open>Values\<close>

text \<open>
  Value objects are mutable and are shared by reference, so they live in a heap: a list
  of objects in which the position of an object is its identity. A reference is such a
  position; \<open>new\<close> appends. A parent object is appended after the children its
  constructor builds (the order in which the objects of one construction receive their
  positions cannot be observed by the program).

  An object of a Value class has its attributes (\<open>type\<close>, and \<open>value\<close>, \<open>tag\<close> or \<open>items\<close>)
  and, for a \<open>RecordValue\<close> and an \<open>EitherValue\<close>, its children: the properties
  \<open>this[name] = child\<close> that the constructors and \<open>assign\<close> write, in insertion order.
  In JavaScript attributes and children are properties of the one object, and a read
  or a call goes on to the members the object inherits. The constructors below hold the
  attributes and the list of children; \<open>attributes\<close>, \<open>methods\<close> and \<open>object_prototype\<close>
  say which other names the object answers to, so that a name that is one of them is
  treated as the program treats it.
\<close>

datatype val =
    RangeValue (vtype: ty) (rvalue: int)
  | RecordValue (vtype: ty) (props: "(string \<times> nat) list")
  | EitherValue (vtype: ty) (vtag: tag) (props: "(string \<times> nat) list")
  | ArrayValue (vtype: ty) (items: "nat list")

type_synonym heap = "val list"

definition deref :: "heap \<Rightarrow> nat \<Rightarrow> val option" where
  "deref h r = (if r < length h then Some (h ! r) else None)"

fun children :: "val \<Rightarrow> (string \<times> nat) list" where
  "children (RangeValue t x) = []"
| "children (RecordValue t ps) = ps"
| "children (EitherValue t tg ps) = ps"
| "children (ArrayValue t cs) = []"

fun attributes :: "val \<Rightarrow> string list" where
  "attributes (RangeValue t x) = [''type'', ''value'']"
| "attributes (RecordValue t ps) = [''type'']"
| "attributes (EitherValue t tg ps) = [''type'', ''tag'']"
| "attributes (ArrayValue t cs) = [''type'', ''items'']"

text \<open>
  The methods each Value class defines in its class body (the base class \<open>Value\<close> has a
  constructor only), and the members every object inherits from \<open>Object.prototype\<close>.
  All of the latter are functions except \<open>__proto__\<close>, which is an accessor: a write to
  \<open>this.__proto__\<close> creates no property but replaces the prototype.
\<close>

fun methods :: "val \<Rightarrow> string list" where
  "methods (RangeValue t x) = [''assign'', ''innerToString'', ''toString'']"
| "methods (RecordValue t ps) = [''innerToString'', ''toString'']"
| "methods (EitherValue t tg ps) = [''assign'', ''equals'', ''innerToString'', ''toString'']"
| "methods (ArrayValue t cs) = [''toString'']"

definition object_prototype :: "string list" where
  "object_prototype =
     [''constructor'', ''__defineGetter__'', ''__defineSetter__'', ''hasOwnProperty'',
      ''__lookupGetter__'', ''__lookupSetter__'', ''isPrototypeOf'',
      ''propertyIsEnumerable'', ''toString'', ''valueOf'', ''__proto__'',
      ''toLocaleString'']"

text \<open>
  \<open>n in o\<close>: the object has the property or inherits it. \<open>o.m\<close> is a function: it is
  inherited and no attribute and no child of the same name hides it; a call \<open>o.m(...)\<close>
  of anything else is a TypeError. \<open>this[n] = child\<close> adds or replaces a child unless
  \<open>n\<close> names an attribute of the object or is \<open>__proto__\<close>.
\<close>

definition in_object :: "val \<Rightarrow> string \<Rightarrow> bool" where
  "in_object v n =
     (n \<in> set (attributes v) \<or> n \<in> fst ` set (children v) \<or>
      n \<in> set (methods v) \<or> n \<in> set object_prototype)"

definition is_function :: "val \<Rightarrow> string \<Rightarrow> bool" where
  "is_function v m =
     (m \<notin> set (attributes v) \<and> m \<notin> fst ` set (children v) \<and>
      (m \<in> set (methods v) \<or> (m \<in> set object_prototype \<and> m \<noteq> ''__proto__'')))"

definition callable :: "heap \<Rightarrow> nat \<Rightarrow> string \<Rightarrow> bool" where
  "callable h r m = (case deref h r of Some v \<Rightarrow> is_function v m | None \<Rightarrow> False)"

definition writes_child :: "string list \<Rightarrow> string \<Rightarrow> bool" where
  "writes_child attrs n = (n \<notin> set attrs \<and> n \<noteq> ''__proto__'')"

text \<open>
  The length of an \<open>ArrayValue\<close> is \<open>indextype.high - indextype.low + 1\<close>, handed to
  \<open>Array.from\<close> as \<open>length\<close>. \<open>Array.from\<close> builds the empty array for a negative
  length, and for the \<open>NaN\<close> that results when the index type has no \<open>low\<close> and \<open>high\<close>;
  for a length of \<open>2^32\<close> or more it raises a RangeError before any slot is built.
  The heap of the model has no bound of its own.
\<close>

definition array_length :: "ty \<Rightarrow> nat" where
  "array_length it = (case it of RangeType _ _ lo hi \<Rightarrow> nat (hi - lo + 1) | _ \<Rightarrow> 0)"

text \<open>
  \<open>makeDefaultValue\<close> of the four Type classes with the constructors of the Value classes
  inlined. \<open>new_fields\<close> is the \<open>forEach\<close> of the \<open>RecordValue\<close> constructor, \<open>new_items\<close> is
  the \<open>Array.from\<close> of the \<open>ArrayValue\<close> constructor. The \<open>EitherValue\<close> constructor reads
  \<open>fieldtypes[0]\<close>, which is \<open>undefined\<close> for an either type without variants, and the
  next line reads a property of it. In \<open>this[name] = child\<close> the child is built first;
  when the write would not add a child (see \<open>writes_child\<close>) the object that results is
  none the model holds.
\<close>

fun makeDefaultValue :: "ty \<Rightarrow> heap \<Rightarrow> (error + nat) \<times> heap"
and new_fields ::
  "(string \<times> ty) list \<Rightarrow> (string \<times> nat) list \<Rightarrow> heap \<Rightarrow> (error + (string \<times> nat) list) \<times> heap"
and new_items :: "nat \<Rightarrow> ty \<Rightarrow> heap \<Rightarrow> (error + nat list) \<times> heap"
where
  "makeDefaultValue (RangeType i n lo hi) h =
     (Inr (length h), h @ [RangeValue (RangeType i n lo hi) lo])"
| "makeDefaultValue (RecordType i n fts) h =
     (case new_fields fts [] h of
        (Inl e, h') \<Rightarrow> (Inl e, h')
      | (Inr ps, h') \<Rightarrow> (Inr (length h'), h' @ [RecordValue (RecordType i n fts) ps]))"
| "makeDefaultValue (EitherType i n []) h = (Inl TypeError, h)"
| "makeDefaultValue (EitherType i n (EitherVariant vi vn vp None # vs)) h =
     (Inr (length h),
      h @ [EitherValue (EitherType i n (EitherVariant vi vn vp None # vs))
             (tag_of (EitherVariant vi vn vp None)) []])"
| "makeDefaultValue (EitherType i n (EitherVariant vi vn vp (Some rt) # vs)) h =
     (case makeDefaultValue rt h of
        (Inl e, h') \<Rightarrow> (Inl e, h')
      | (Inr c, h') \<Rightarrow>
          if writes_child [''type'', ''tag''] (tag_name (tag_of (EitherVariant vi vn vp (Some rt))))
          then
            (Inr (length h'),
             h' @ [EitherValue (EitherType i n (EitherVariant vi vn vp (Some rt) # vs))
                     (tag_of (EitherVariant vi vn vp (Some rt)))
                     (AList.update (tag_name (tag_of (EitherVariant vi vn vp (Some rt)))) c [])])
          else (Inl Unmodelled, h'))"
| "makeDefaultValue (ArrayType i n vt it) h =
     (if 4294967296 \<le> array_length it then (Inl RangeError, h)
      else
        (case new_items (array_length it) vt h of
           (Inl e, h') \<Rightarrow> (Inl e, h')
         | (Inr cs, h') \<Rightarrow> (Inr (length h'), h' @ [ArrayValue (ArrayType i n vt it) cs])))"
| "new_fields [] ps h = (Inr ps, h)"
| "new_fields ((n, t) # fts) ps h =
     (case makeDefaultValue t h of
        (Inl e, h') \<Rightarrow> (Inl e, h')
      | (Inr c, h') \<Rightarrow>
          if writes_child [''type''] n then new_fields fts (AList.update n c ps) h'
          else (Inl Unmodelled, h'))"
| "new_items 0 t h = (Inr [], h)"
| "new_items (Suc k) t h =
     (case makeDefaultValue t h of
        (Inl e, h') \<Rightarrow> (Inl e, h')
      | (Inr c, h') \<Rightarrow>
          (case new_items k t h' of
             (Inl e, h'') \<Rightarrow> (Inl e, h'')
           | (Inr cs, h'') \<Rightarrow> (Inr (c # cs), h'')))"

section \<open>Operations on values\<close>

text \<open>
  \<open>RangeValue.assign(newValue)\<close>. The guard compares with \<open>this.type.low\<close> and
  \<open>this.type.high\<close>; a comparison with \<open>undefined\<close> is false. The method belongs to
  \<open>RangeValue\<close> objects: on any other receiver the model answers \<open>TypeError\<close>.
\<close>

definition RangeValue_assign :: "heap \<Rightarrow> nat \<Rightarrow> int \<Rightarrow> (error + unit) \<times> heap" where
  "RangeValue_assign h this newValue =
     (case deref h this of
        Some (RangeValue t x) \<Rightarrow>
          (case t of
             RangeType i n lo hi \<Rightarrow>
               if newValue < lo \<or> newValue > hi then (Inl (OutOfRange newValue), h)
               else (Inr (), h[this := RangeValue t newValue])
           | _ \<Rightarrow> (Inr (), h[this := RangeValue t newValue]))
      | _ \<Rightarrow> (Inl TypeError, h))"

text \<open>
  The argument of \<open>EitherValue.assign\<close> and \<open>EitherValue.equals\<close> is any JavaScript value:
  a reference to a value object, an \<open>EitherTag\<close>, a number, a string or \<open>undefined\<close>.
\<close>

datatype jsval = Ref nat | Tag tag | Num int | Str string | Undefined

text \<open>The property and attribute writes of an \<open>EitherValue\<close> object, one per statement.\<close>

definition delete_prop :: "heap \<Rightarrow> nat \<Rightarrow> string \<Rightarrow> heap" where
  "delete_prop h r n =
     (case h ! r of
        EitherValue t tg ps \<Rightarrow> h[r := EitherValue t tg (AList.delete n ps)]
      | _ \<Rightarrow> h)"

definition set_tag :: "heap \<Rightarrow> nat \<Rightarrow> tag \<Rightarrow> heap" where
  "set_tag h r tg' =
     (case h ! r of
        EitherValue t tg ps \<Rightarrow> h[r := EitherValue t tg' ps]
      | _ \<Rightarrow> h)"

definition set_prop :: "heap \<Rightarrow> nat \<Rightarrow> string \<Rightarrow> nat \<Rightarrow> heap" where
  "set_prop h r n c =
     (case h ! r of
        EitherValue t tg ps \<Rightarrow> h[r := EitherValue t tg (AList.update n c ps)]
      | _ \<Rightarrow> h)"

text \<open>
  \<open>this.assign(newValue)\<close> on an \<open>EitherValue\<close>, with \<open>assign\<close> of the either module. A
  child named \<open>assign\<close> hides the method, and the call is a TypeError. The first branch
  reads \<open>newValue.tag\<close> and \<open>newValue[this.tag.name]\<close> after the \<open>delete\<close>, which matters
  when \<open>newValue\<close> is \<open>this\<close>. The property is copied as it is: a reference. When
  \<open>this.tag.name\<close> is no child of \<open>newValue\<close> but is \<open>type\<close>, \<open>tag\<close> or \<open>__proto__\<close>, the
  write copies an attribute, or the prototype, that both objects already share.
  The \<open>delete\<close> removes an attribute when the current tag is named \<open>type\<close> or \<open>tag\<close>, and
  \<open>this[n] = newValue[n]\<close> copies a function when \<open>n\<close> is only inherited: both lead out
  of the objects the model holds.
\<close>

definition EitherValue_assign :: "heap \<Rightarrow> nat \<Rightarrow> jsval \<Rightarrow> (error + unit) \<times> heap" where
  "EitherValue_assign h this newValue =
     (case deref h this of
        Some (EitherValue t tg ps) \<Rightarrow>
          if \<not> is_function (EitherValue t tg ps) ''assign'' then (Inl TypeError, h)
          else
            (case newValue of
               Ref s \<Rightarrow>
                 (case deref h s of
                    Some (EitherValue t' tg' ps') \<Rightarrow>
                      if tid t = tid t' then
                        (if tag_name tg \<in> set [''type'', ''tag''] then (Inl Unmodelled, h)
                         else
                           (let h1 = delete_prop h this (tag_name tg);
                                h2 = set_tag h1 this (vtag (h1 ! s));
                                n = tag_name (vtag (h2 ! this))
                            in (case map_of (props (h2 ! s)) n of
                                  Some c \<Rightarrow>
                                    if writes_child [''type'', ''tag''] n
                                    then (Inr (), set_prop h2 this n c)
                                    else (Inl Unmodelled, h2)
                                | None \<Rightarrow>
                                    if n \<in> set [''type'', ''tag'', ''__proto__'']
                                    then (Inr (), h2)
                                    else if in_object (h2 ! s) n then (Inl Unmodelled, h2)
                                    else (Inr (), h2))))
                      else (Inl Internal, h)
                  | _ \<Rightarrow> (Inl Internal, h))
             | Tag nt \<Rightarrow>
                 if parenttype (tag_type nt) = parenttype (tag_type tg)
                 then
                   (if tag_name tg \<in> set [''type'', ''tag''] then (Inl Unmodelled, h)
                    else (Inr (), set_tag (delete_prop h this (tag_name tg)) this nt))
                 else (Inl Internal, h)
             | _ \<Rightarrow> (Inl Internal, h))
      | _ \<Rightarrow> (Inl TypeError, h))"

text \<open>
  \<open>this.equals(other)\<close> on an \<open>EitherValue\<close>, with \<open>equals\<close> of the either module. A child
  named \<open>equals\<close> hides the method. \<open>other.type\<close> is the Type of a value object, the
  variant of a tag, \<open>undefined\<close> for a number or a string, and a TypeError for
  \<open>undefined\<close>; \<open>other.tag\<close> is \<open>undefined\<close> unless \<open>other\<close> is an \<open>EitherValue\<close>.
  The last branch is taken when \<open>this.tag.name in this\<close>, which holds for a child, an
  attribute and an inherited member alike. It evaluates
  \<open>this[this.tag.name].equals(other[othe.tag.name])\<close>: the identifier \<open>othe\<close> is declared
  nowhere, so evaluating the argument raises a ReferenceError before \<open>equals\<close> of the
  nested value is called.
\<close>

definition EitherValue_equals :: "heap \<Rightarrow> nat \<Rightarrow> jsval \<Rightarrow> error + bool" where
  "EitherValue_equals h this other =
     (case deref h this of
        Some (EitherValue t tg ps) \<Rightarrow>
          if \<not> is_function (EitherValue t tg ps) ''equals'' then Inl TypeError
          else
            (case other of
               Undefined \<Rightarrow> Inl TypeError
             | Num k \<Rightarrow> Inr False
             | Str k \<Rightarrow> Inr False
             | Tag ot \<Rightarrow> Inr False
             | Ref s \<Rightarrow>
                 (case deref h s of
                    Some (EitherValue t' tg' ps') \<Rightarrow>
                      if tid t \<noteq> tid t' then Inr False
                      else if \<not> same_tag tg tg' then Inr False
                      else if in_object (EitherValue t tg ps) (tag_name tg) then Inl ReferenceError
                      else Inr True
                  | _ \<Rightarrow> Inr False))
      | _ \<Rightarrow> Inl TypeError)"

text \<open>
  The children of an object. \<open>get_prop h r n\<close> is the child that the object holds under
  the name \<open>n\<close>, if it holds one, and \<open>get_item h r i\<close> is the slot at position \<open>i\<close> of
  \<open>items\<close>, if there is one; both are the stored references. (\<open>this[n]\<close> itself also
  answers for a name that is not a child: with the attribute or the inherited member of
  that name, or with \<open>undefined\<close>.)
\<close>

definition get_prop :: "heap \<Rightarrow> nat \<Rightarrow> string \<Rightarrow> nat option" where
  "get_prop h r n =
     (case deref h r of
        Some (RecordValue t ps) \<Rightarrow> map_of ps n
      | Some (EitherValue t tg ps) \<Rightarrow> map_of ps n
      | _ \<Rightarrow> None)"

definition get_item :: "heap \<Rightarrow> nat \<Rightarrow> nat \<Rightarrow> nat option" where
  "get_item h r i =
     (case deref h r of
        Some (ArrayValue t cs) \<Rightarrow> (if i < length cs then Some (cs ! i) else None)
      | _ \<Rightarrow> None)"

section \<open>Notions the properties are stated with\<close>

text \<open>The scopes of an environment, innermost first, and a name bound somewhere in them.\<close>

fun chain :: "environment \<Rightarrow> environment list" where
  "chain (Environment ts vs p) =
     Environment ts vs p # (case p of None \<Rightarrow> [] | Some e \<Rightarrow> chain e)"

definition bound_in_chain :: "environment \<Rightarrow> string \<Rightarrow> bool" where
  "bound_in_chain e n = (\<exists>f \<in> set (chain e). n \<in> fst ` set (types f))"



definition register :: "environment \<Rightarrow> (string \<times> var) list \<Rightarrow> environment" where
  "register e rs = foldl (\<lambda>e (n, x). assignVar e n x) e rs"

text \<open>
  The types on which a default value has the shape the data model describes: in every
  record the field names are pairwise distinct and none is \<open>type\<close> or \<open>__proto__\<close>; an
  either type has a first variant, which, if it has a record type, is not named
  \<open>type\<close>, \<open>tag\<close> or \<open>__proto__\<close>; an array is indexed by a range whose
  \<open>high - low + 1\<close> is not negative and is below \<open>2^32\<close>. The condition follows the parts
  of the type a default value instantiates.
\<close>

fun well_formed :: "ty \<Rightarrow> bool"
and well_formed_fields :: "(string \<times> ty) list \<Rightarrow> bool"
where
  "well_formed (RangeType i n lo hi) = True"
| "well_formed (RecordType i n fts) = (distinct (map fst fts) \<and> well_formed_fields fts)"
| "well_formed (EitherType i n []) = False"
| "well_formed (EitherType i n (EitherVariant vi vn vp None # vs)) = True"
| "well_formed (EitherType i n (EitherVariant vi vn vp (Some rt) # vs)) =
     (writes_child [''type'', ''tag''] vn \<and> well_formed rt)"
| "well_formed (ArrayType i n vt it) =
     (well_formed vt \<and>
      (case it of
         RangeType _ _ lo hi \<Rightarrow> lo \<le> hi + 1 \<and> hi - lo + 1 < 4294967296
       | _ \<Rightarrow> False))"
| "well_formed_fields [] = True"
| "well_formed_fields ((n, t) # fts) =
     (writes_child [''type''] n \<and> well_formed t \<and> well_formed_fields fts)"

text \<open>
  \<open>is_default k h r t\<close>: in the heap \<open>h\<close> the reference \<open>r\<close> is a structurally valid
  default of the type \<open>t\<close> whose objects are exactly the ones at the positions \<open>k\<close> to
  \<open>r\<close>, the children first, each with a block of positions of its own, and the parent
  last. So with \<open>k\<close> the size of the heap before, every object of the value is fresh
  and no object is shared between two children. A range value holds \<open>low\<close>; a record
  value has exactly one child per declared field, in order, each a default of the
  field's type; an either value has the tag of the first variant and carries a default
  of the variant's record type under the tag's name exactly when the variant has one;
  an array value has \<open>high - low + 1\<close> children, each a default of the element type.
\<close>

fun is_default :: "nat \<Rightarrow> heap \<Rightarrow> nat \<Rightarrow> ty \<Rightarrow> bool"
and fields_default ::
  "nat \<Rightarrow> heap \<Rightarrow> (string \<times> nat) list \<Rightarrow> (string \<times> ty) list \<Rightarrow> nat \<Rightarrow> bool"
and items_default :: "nat \<Rightarrow> heap \<Rightarrow> nat list \<Rightarrow> ty \<Rightarrow> nat \<Rightarrow> bool"
where
  "is_default k h r (RangeType i n lo hi) =
     (r = k \<and> deref h r = Some (RangeValue (RangeType i n lo hi) lo))"
| "is_default k h r (RecordType i n fts) =
     (case deref h r of
        Some (RecordValue t ps) \<Rightarrow> t = RecordType i n fts \<and> fields_default k h ps fts r
      | _ \<Rightarrow> False)"
| "is_default k h r (EitherType i n []) = False"
| "is_default k h r (EitherType i n (EitherVariant vi vn vp None # vs)) =
     (r = k \<and>
      deref h r =
        Some (EitherValue (EitherType i n (EitherVariant vi vn vp None # vs))
                (tag_of (EitherVariant vi vn vp None)) []))"
| "is_default k h r (EitherType i n (EitherVariant vi vn vp (Some rt) # vs)) =
     (case deref h r of
        Some (EitherValue t tg [(m, c)]) \<Rightarrow>
          t = EitherType i n (EitherVariant vi vn vp (Some rt) # vs) \<and>
          tg = tag_of (EitherVariant vi vn vp (Some rt)) \<and>
          m = vn \<and> r = Suc c \<and> is_default k h c rt
      | _ \<Rightarrow> False)"
| "is_default k h r (ArrayType i n vt it) =
     (case deref h r of
        Some (ArrayValue t cs) \<Rightarrow>
          t = ArrayType i n vt it \<and>
          (case it of RangeType _ _ lo hi \<Rightarrow> int (length cs) = hi - lo + 1 | _ \<Rightarrow> False) \<and>
          items_default k h cs vt r
      | _ \<Rightarrow> False)"
| "fields_default k h [] [] r = (r = k)"
| "fields_default k h ((m, c) # ps) ((n, t) # fts) r =
     (m = n \<and> is_default k h c t \<and> fields_default (Suc c) h ps fts r)"
| "fields_default k h [] (ft # fts) r = False"
| "fields_default k h (p # ps) [] r = False"
| "items_default k h [] t r = (r = k)"
| "items_default k h (c # cs) t r = (is_default k h c t \<and> items_default (Suc c) h cs t r)"

definition same_types :: "environment \<Rightarrow> environment \<Rightarrow> bool" where
  "same_types e e' = (types e = types e' \<and> parent e = parent e')"

section \<open>Example declarations and the objects built from them\<close>

text \<open>
  \<open>type T: either { A { x: 0..1 }, B }\<close>, loaded into an empty environment, the default
  value of \<open>T\<close> in an empty heap, and a second default value beside it.
\<close>

definition w0 :: world where
  "w0 = \<lparr>env = Environment [] [] None, next_id = 0\<rparr>"

definition decl_T :: decl where
  "decl_T = Either [RecordVariant ''A'' (Record [(''x'', Range 0 1)]), EnumVariant ''B'']"

definition variant_A :: variant where
  "variant_A = EitherVariant 1 ''A'' 0 (Some (RecordType 2 None [(''x'', RangeType 3 None 0 1)]))"

definition variant_B :: variant where
  "variant_B = EitherVariant 4 ''B'' 0 None"

definition type_T :: ty where
  "type_T = EitherType 0 (Some ''T'') [variant_A, variant_B]"


definition heap_T :: heap where
  "heap_T =
     [RangeValue (RangeType 3 None 0 1) 0,
      RecordValue (RecordType 2 None [(''x'', RangeType 3 None 0 1)]) [(''x'', 0)],
      EitherValue type_T (tag_of variant_A) [(''A'', 1)]]"

definition heap_TT :: heap where
  "heap_TT = heap_T @
     [RangeValue (RangeType 3 None 0 1) 0,
      RecordValue (RecordType 2 None [(''x'', RangeType 3 None 0 1)]) [(''x'', 3)],
      EitherValue type_T (tag_of variant_A) [(''A'', 4)]]"

definition prelude :: environment where
  "prelude = Environment [(''A'', RangeType 0 (Some ''A'') 0 9)] [] None"

definition module_world :: world where
  "module_world = \<lparr>env = Environment [] [] (Some prelude), next_id = 1\<rparr>"

definition digit_heap :: heap where
  "digit_heap = [RangeValue (RangeType 0 (Some ''Digit'') 0 9) 5]"

text \<open>
  \<open>type Point: record { x: 0..1 }\<close> and an array of \<open>0..1\<close> indexed by \<open>5..7\<close>, with their
  default values.
\<close>

definition point_type :: ty where
  "point_type = RecordType 0 (Some ''Point'') [(''x'', RangeType 1 None 0 1)]"

definition point_heap :: heap where
  "point_heap = [RangeValue (RangeType 1 None 0 1) 0, RecordValue point_type [(''x'', 0)]]"

definition array_type :: ty where
  "array_type = ArrayType 0 None (RangeType 1 None 0 1) (RangeType 2 None 5 7)"

definition array_heap :: heap where
  "array_heap =
     [RangeValue (RangeType 1 None 0 1) 0, RangeValue (RangeType 1 None 0 1) 0,
      RangeValue (RangeType 1 None 0 1) 0, ArrayValue array_type [0, 1, 2]]"






section \<open>Auxiliary facts\<close>

lemmas ex_defs = w0_def decl_T_def variant_A_def variant_B_def type_T_def heap_T_def heap_TT_def

lemma make_decl_T:
  "make decl_T (Some ''T'') w0 =
     (Inr type_T,
      \<lparr>env = Environment [] [(''B'', TagVar (tag_of variant_B))] None, next_id = 5\<rparr>)"
  by (simp add: ex_defs eval_nat_numeral)

lemma getType_None_iff: "getType e n = None \<longleftrightarrow> \<not> bound_in_chain e n"
  unfolding bound_in_chain_def
  by (induction e n rule: getType.induct)
     (auto simp: map_of_eq_None_iff [symmetric] split: option.splits)

lemma same_types_refl [simp]: "same_types e e"
  by (simp add: same_types_def)

lemma same_types_assignVar [simp]: "same_types (assignVar e n x) e' = same_types e e'"
  by (cases e) (simp add: same_types_def)









lemma register_simps [simp]:
  "register e [] = e"
  "register e ((n, x) # rs) = register (assignVar e n x) rs"
  "register e (rs @ rs') = register (register e rs) rs'"
  by (simp_all add: register_def)









lemma default_type_T: "makeDefaultValue type_T [] = (Inr 2, heap_T)"
  by (simp add: ex_defs tag_of_def writes_child_def)

lemma default_type_T_again: "makeDefaultValue type_T heap_T = (Inr 5, heap_TT)"
  by (simp add: ex_defs tag_of_def writes_child_def)



lemma default_point: "makeDefaultValue point_type [] = (Inr 1, point_heap)"
  by (simp add: point_type_def point_heap_def writes_child_def)

lemma default_array: "makeDefaultValue array_type [] = (Inr 3, array_heap)"
proof -
  have l: "array_length (RangeType 2 None 5 7) = Suc (Suc (Suc 0))"
    by (simp add: array_length_def)
  show ?thesis
    unfolding array_type_def array_heap_def makeDefaultValue.simps l
    by (simp add: numeral_3_eq_3)
qed

lemma deref_append: "deref h r = Some x \<Longrightarrow> deref (h @ ext) r = Some x"
  by (auto simp: deref_def nth_append split: if_splits)

lemma deref_length: "deref (h @ [x]) (length h) = Some x"
  by (simp add: deref_def)

lemma deref_update_same: "c < length h \<Longrightarrow> deref (h[c := x]) c = Some x"
  by (simp add: deref_def)

lemma deref_update_other: "a \<noteq> c \<Longrightarrow> deref (h[c := x]) a = deref h a"
  by (simp add: deref_def)

lemma makeDefaultValue_extends:
  "\<exists>ext. snd (makeDefaultValue t h) = h @ ext"
  "\<exists>ext. snd (new_fields fts ps h) = h @ ext"
  "\<exists>ext. snd (new_items k t h) = h @ ext"
proof (induction t h and fts ps h and k t h rule: makeDefaultValue_new_fields_new_items.induct)
  case (2 i n fts h)
  then show ?case by (auto split: prod.splits sum.splits)
next
  case (5 i n vi vn vp rt vs h)
  then show ?case by (auto split: prod.splits sum.splits)
next
  case (6 i n vt it h)
  then show ?case by (auto split: prod.splits sum.splits)
next
  case (8 n t fts ps h)
  show ?case
  proof (cases "makeDefaultValue t h")
    case (Pair res h')
    from 8(1) Pair obtain e1 where e1: "h' = h @ e1" by auto
    show ?thesis
    proof (cases res)
      case (Inl e)
      with Pair e1 show ?thesis by simp
    next
      case (Inr c)
      show ?thesis
      proof (cases "writes_child [''type''] n")
        case True
        from 8(2) [OF Pair [symmetric] Inr True] obtain e2
          where "snd (new_fields fts (AList.update n c ps) h') = h' @ e2" by auto
        with Pair Inr e1 True show ?thesis by simp
      next
        case False
        with Pair Inr e1 show ?thesis by simp
      qed
    qed
  qed
next
  case (10 k t h)
  show ?case
  proof (cases "makeDefaultValue t h")
    case (Pair res h')
    from 10(1) Pair obtain e1 where e1: "h' = h @ e1" by auto
    show ?thesis
    proof (cases res)
      case (Inl e)
      with Pair e1 show ?thesis by simp
    next
      case (Inr c)
      from 10(2) [OF Pair [symmetric] Inr] obtain e2
        where "snd (new_items k t h') = h' @ e2" by auto
      with Pair Inr e1 show ?thesis by (auto split: prod.splits sum.splits)
    qed
  qed
qed simp_all

lemma is_default_append:
  "is_default k h r t \<Longrightarrow> is_default k (h @ ext) r t"
  "fields_default k h ps fts r' \<Longrightarrow> fields_default k (h @ ext) ps fts r'"
  "items_default k h cs t r' \<Longrightarrow> items_default k (h @ ext) cs t r'"
proof (induction k h r t and k h ps fts r' and k h cs t r'
       rule: is_default_fields_default_items_default.induct)
  case (1 k h r i n lo hi)
  then show ?case by (auto dest: deref_append)
next
  case (2 k h r i n fts)
  then show ?case
    by (cases "deref h r") (auto dest: deref_append [where ext = ext] split: val.splits)
next
  case (4 k h r i n vi vn vp vs)
  then show ?case by (auto dest: deref_append)
next
  case (5 k h r i n vi vn vp rt vs)
  then show ?case
    by (cases "deref h r")
       (auto dest: deref_append [where ext = ext] split: val.splits list.splits)
next
  case (6 k h r i n vt it)
  then show ?case
    by (cases "deref h r") (auto dest: deref_append [where ext = ext] split: val.splits)
qed simp_all

lemma update_fresh: "n \<notin> fst ` set ps \<Longrightarrow> AList.update n c ps = ps @ [(n, c)]"
  by (induction ps) auto

lemma makeDefaultValue_default:
  "well_formed t \<Longrightarrow>
     \<exists>r. makeDefaultValue t h = (Inr r, snd (makeDefaultValue t h)) \<and>
       is_default (length h) (snd (makeDefaultValue t h)) r t \<and>
       length (snd (makeDefaultValue t h)) = Suc r"
  "well_formed_fields fts \<Longrightarrow> distinct (map fst fts) \<Longrightarrow>
   fst ` set ps \<inter> fst ` set fts = {} \<Longrightarrow>
     \<exists>ps'. new_fields fts ps h = (Inr (ps @ ps'), snd (new_fields fts ps h)) \<and>
       fields_default (length h) (snd (new_fields fts ps h)) ps' fts
         (length (snd (new_fields fts ps h)))"
  "well_formed t \<Longrightarrow>
     \<exists>cs. new_items k t h = (Inr cs, snd (new_items k t h)) \<and> length cs = k \<and>
       items_default (length h) (snd (new_items k t h)) cs t (length (snd (new_items k t h)))"
proof (induction t h and fts ps h and k t h rule: makeDefaultValue_new_fields_new_items.induct)
  case (1 i n lo hi h)
  show ?case by (simp add: deref_length)
next
  case (2 i n fts h)
  from 2(2) have "well_formed_fields fts" "distinct (map fst fts)" by simp_all
  with 2(1) obtain ps' h'
    where nf: "new_fields fts [] h = (Inr ps', h')"
      and fd: "fields_default (length h) h' ps' fts (length h')" by fastforce
  have "is_default (length h) (h' @ [RecordValue (RecordType i n fts) ps']) (length h')
          (RecordType i n fts)"
    using is_default_append(2) [OF fd] by (simp add: deref_length)
  with nf show ?case by simp
next
  case (3 i n h)
  then show ?case by simp
next
  case (4 i n vi vn vp vs h)
  show ?case by (simp add: deref_length)
next
  case (5 i n vi vn vp rt vs h)
  from 5(2) have wf: "well_formed rt" and wc: "writes_child [''type'', ''tag''] vn" by simp_all
  from 5(1) [OF wf] obtain c h'
    where mk: "makeDefaultValue rt h = (Inr c, h')"
      and d: "is_default (length h) h' c rt" and l: "length h' = Suc c" by auto
  have dr: "deref (h' @ [EitherValue (EitherType i n (EitherVariant vi vn vp (Some rt) # vs))
                   (tag_of (EitherVariant vi vn vp (Some rt))) [(vn, c)]]) (Suc c)
             = Some (EitherValue (EitherType i n (EitherVariant vi vn vp (Some rt) # vs))
                   (tag_of (EitherVariant vi vn vp (Some rt))) [(vn, c)])"
    using deref_length [of h'] l by simp
  have "is_default (length h)
          (h' @ [EitherValue (EitherType i n (EitherVariant vi vn vp (Some rt) # vs))
                   (tag_of (EitherVariant vi vn vp (Some rt))) [(vn, c)]])
          (length h') (EitherType i n (EitherVariant vi vn vp (Some rt) # vs))"
    using l dr is_default_append(1) [OF d] by simp
  with mk wc show ?case by (simp add: tag_of_def)
next
  case (6 i n vt it h)
  from 6(2) obtain j m lo hi where it: "it = RangeType j m lo hi" and le: "lo \<le> hi + 1"
    and lt: "hi - lo + 1 < 4294967296" and wf: "well_formed vt"
    by (cases it) auto
  have small: "\<not> 4294967296 \<le> array_length it"
    using it le lt by (simp add: array_length_def)
  from 6(1) [OF small wf] obtain cs h'
    where ni: "new_items (array_length it) vt h = (Inr cs, h')"
      and len: "length cs = array_length it"
      and d: "items_default (length h) h' cs vt (length h')" by auto
  have cnt: "int (length cs) = hi - lo + 1"
    using len le it by (simp add: array_length_def)
  have "is_default (length h) (h' @ [ArrayValue (ArrayType i n vt it) cs]) (length h')
          (ArrayType i n vt it)"
    using cnt it is_default_append(3) [OF d] by (simp add: deref_length)
  with ni small show ?case by simp
next
  case (7 ps h)
  show ?case by simp
next
  case (8 n t fts ps h)
  from 8(3) have wt: "well_formed t" and wfs: "well_formed_fields fts"
    and wc: "writes_child [''type''] n" by simp_all
  from 8(4) have nfresh: "n \<notin> fst ` set fts" and dis: "distinct (map fst fts)" by auto
  from 8(5) have nps: "n \<notin> fst ` set ps" by auto
  from 8(1) [OF wt] obtain c h1
    where mk: "makeDefaultValue t h = (Inr c, h1)"
      and d: "is_default (length h) h1 c t" and l1: "length h1 = Suc c" by auto
  have upd: "AList.update n c ps = ps @ [(n, c)]" using nps by (rule update_fresh)
  have disj: "fst ` set (AList.update n c ps) \<inter> fst ` set fts = {}"
    using 8(5) nfresh by (auto simp: upd)
  from 8(2) [OF mk [symmetric] refl wc wfs dis disj] obtain ps' h2
    where nf: "new_fields fts (AList.update n c ps) h1 = (Inr (AList.update n c ps @ ps'), h2)"
      and fd: "fields_default (length h1) h2 ps' fts (length h2)" by auto
  from makeDefaultValue_extends(2) [of fts "AList.update n c ps" h1] nf
  obtain ext where ext: "h2 = h1 @ ext" by auto
  have "fields_default (length h) h2 ((n, c) # ps') ((n, t) # fts) (length h2)"
    using is_default_append(1) [OF d, of ext] fd l1 ext by simp
  with mk nf upd wc show ?case by simp
next
  case (9 t h)
  show ?case by simp
next
  case (10 k t h)
  from 10(1) [OF 10(3)] obtain c h1
    where mk: "makeDefaultValue t h = (Inr c, h1)"
      and d: "is_default (length h) h1 c t" and l1: "length h1 = Suc c" by auto
  from 10(2) [OF mk [symmetric] refl 10(3)] obtain cs h2
    where ni: "new_items k t h1 = (Inr cs, h2)" and len: "length cs = k"
      and ds: "items_default (length h1) h2 cs t (length h2)" by auto
  from makeDefaultValue_extends(3) [of k t h1] ni
  obtain ext where ext: "h2 = h1 @ ext" by auto
  have "items_default (length h) h2 (c # cs) t (length h2)"
    using is_default_append(1) [OF d, of ext] ds l1 ext by simp
  with mk ni len show ?case by simp
qed

lemma no_pair_cons: "(\<forall>a b xs. l \<noteq> (a, b) # xs) = (l = [])"
  by (cases l) auto

lemma is_default_le:
  "is_default k h r t \<Longrightarrow> k \<le> r"
  "fields_default k h ps fts r' \<Longrightarrow> k \<le> r'"
  "items_default k h cs t r' \<Longrightarrow> k \<le> r'"
proof (induction k h r t and k h ps fts r' and k h cs t r'
       rule: is_default_fields_default_items_default.induct)
  case (2 k h r i n fts)
  then show ?case by (cases "deref h r") (auto split: val.splits)
next
  case (5 k h r i n vi vn vp rt vs)
  from 5(2) obtain t tg m c where d: "deref h r = Some (EitherValue t tg [(m, c)])"
    and r: "r = Suc c" and c: "is_default k h c rt"
    by (cases "deref h r") (auto split: val.splits list.splits simp: no_pair_cons)
  from 5(1) [OF d refl refl refl refl c] r show ?case by simp
next
  case (6 k h r i n vt it)
  then show ?case by (cases "deref h r") (auto split: val.splits)
qed auto

lemma fields_default_lookup:
  "fields_default k h ps fts r \<Longrightarrow> distinct (map fst fts) \<Longrightarrow> (m, t) \<in> set fts \<Longrightarrow>
     \<exists>c lo. map_of ps m = Some c \<and> is_default lo h c t \<and> c < r"
proof (induction fts arbitrary: ps k)
  case Nil
  then show ?case by simp
next
  case (Cons ft fts)
  obtain n t' where ft: "ft = (n, t')" by (cases ft)
  from Cons.prems(1) ft obtain c ps' where ps: "ps = (n, c) # ps'"
    and d: "is_default k h c t'" and rest: "fields_default (Suc c) h ps' fts r"
    by (cases ps) auto
  from is_default_le(2) [OF rest] have cr: "c < r" by simp
  show ?case
  proof (cases "m = n")
    case True
    with Cons.prems(2,3) ft have "t = t'" by (auto simp: image_iff)
    with True ps d cr show ?thesis by auto
  next
    case False
    with Cons.prems(2,3) ft have "distinct (map fst fts)" "(m, t) \<in> set fts" by auto
    from Cons.IH [OF rest this] False ps show ?thesis by simp
  qed
qed

lemma items_default_nth:
  "items_default k h cs t r \<Longrightarrow> p < length cs \<Longrightarrow>
     \<exists>lo. is_default lo h (cs ! p) t \<and> cs ! p < r"
proof (induction cs arbitrary: k p)
  case Nil
  then show ?case by simp
next
  case (Cons c cs)
  from Cons.prems(1) have d: "is_default k h c t" and rest: "items_default (Suc c) h cs t r"
    by simp_all
  from is_default_le(3) [OF rest] have cr: "c < r" by simp
  show ?case
  proof (cases p)
    case 0
    with d cr show ?thesis by auto
  next
    case (Suc q)
    with Cons.prems(2) have "q < length cs" by simp
    from Cons.IH [OF rest this] Suc show ?thesis by simp
  qed
qed


lemma record_default_children:
  assumes "well_formed (RecordType i n fts)"
  shows "\<exists>r h'. makeDefaultValue (RecordType i n fts) h = (Inr r, h')
         \<and> (\<forall>(m, ft) \<in> set fts. \<exists>c k.
               get_prop h' r m = Some c \<and> c < r \<and> is_default k h' c ft
             \<and> (\<forall>x. get_prop (h'[c := x]) r m = Some c \<and> deref (h'[c := x]) c = Some x))"
proof -
  from makeDefaultValue_default(1) [OF assms, of h] obtain r h'
    where m: "makeDefaultValue (RecordType i n fts) h = (Inr r, h')"
      and d: "is_default (length h) h' r (RecordType i n fts)"
      and l: "length h' = Suc r"
    by auto
  from d obtain ps where dr: "deref h' r = Some (RecordValue (RecordType i n fts) ps)"
    and fd: "fields_default (length h) h' ps fts r"
    by (cases "deref h' r") (auto split: val.splits)
  from assms have dist: "distinct (map fst fts)" by simp
  have "\<exists>c k. get_prop h' r m = Some c \<and> c < r \<and> is_default k h' c ft
             \<and> (\<forall>x. get_prop (h'[c := x]) r m = Some c \<and> deref (h'[c := x]) c = Some x)"
    if "(m, ft) \<in> set fts" for m ft
  proof -
    from fields_default_lookup [OF fd dist that] obtain c k
      where mo: "map_of ps m = Some c" and dc: "is_default k h' c ft" and cr: "c < r"
      by auto
    from dr mo have g: "get_prop h' r m = Some c" by (simp add: get_prop_def)
    from cr have ne: "r \<noteq> c" by simp
    have live: "get_prop (h'[c := x]) r m = Some c \<and> deref (h'[c := x]) c = Some x" for x
      using dr mo cr l deref_update_other [OF ne, of h' x] deref_update_same [of c h' x]
      by (simp add: get_prop_def)
    from g cr dc live show ?thesis by blast
  qed
  then have "\<forall>(m, ft) \<in> set fts. \<exists>c k.
               get_prop h' r m = Some c \<and> c < r \<and> is_default k h' c ft
             \<and> (\<forall>x. get_prop (h'[c := x]) r m = Some c \<and> deref (h'[c := x]) c = Some x)"
    by blast
  with m show ?thesis by blast
qed

lemma array_default_children:
  assumes "well_formed (ArrayType i n vt (RangeType j n' lo hi))"
  shows "\<exists>a g'. makeDefaultValue (ArrayType i n vt (RangeType j n' lo hi)) g = (Inr a, g')
         \<and> (\<forall>p. if int p < hi - lo + 1
                then (\<exists>c k. get_item g' a p = Some c \<and> c < a \<and> is_default k g' c vt
                       \<and> (\<forall>x. get_item (g'[c := x]) a p = Some c
                              \<and> deref (g'[c := x]) c = Some x))
                else get_item g' a p = None)"
proof -
  from makeDefaultValue_default(1) [OF assms, of g] obtain a g'
    where m: "makeDefaultValue (ArrayType i n vt (RangeType j n' lo hi)) g = (Inr a, g')"
      and d: "is_default (length g) g' a (ArrayType i n vt (RangeType j n' lo hi))"
      and l: "length g' = Suc a"
    by auto
  from d obtain cs
    where dr: "deref g' a = Some (ArrayValue (ArrayType i n vt (RangeType j n' lo hi)) cs)"
      and len: "int (length cs) = hi - lo + 1"
      and itd: "items_default (length g) g' cs vt a"
    by (cases "deref g' a") (auto split: val.splits)
  have "if int p < hi - lo + 1
        then (\<exists>c k. get_item g' a p = Some c \<and> c < a \<and> is_default k g' c vt
               \<and> (\<forall>x. get_item (g'[c := x]) a p = Some c \<and> deref (g'[c := x]) c = Some x))
        else get_item g' a p = None" for p
  proof (cases "int p < hi - lo + 1")
    case True
    with len have pl: "p < length cs" by simp
    from items_default_nth [OF itd pl] obtain k
      where dc: "is_default k g' (cs ! p) vt" and ca: "cs ! p < a" by auto
    from dr pl have gi: "get_item g' a p = Some (cs ! p)" by (simp add: get_item_def)
    from ca have ne: "a \<noteq> cs ! p" by simp
    have live: "get_item (g'[cs ! p := x]) a p = Some (cs ! p)
                \<and> deref (g'[cs ! p := x]) (cs ! p) = Some x" for x
      using dr pl ca l deref_update_other [OF ne, of g' x] deref_update_same [of "cs ! p" g' x]
      by (simp add: get_item_def)
    from gi ca dc live True show ?thesis by auto
  next
    case False
    with len have "\<not> p < length cs" by simp
    with dr False show ?thesis by (simp add: get_item_def)
  qed
  with m show ?thesis by blast
qed

section \<open>The claims\<close>

text \<open>
  C1. For every RangeType with bounds \<open>lo\<close> and \<open>hi\<close>, every RangeValue \<open>r\<close> of it and
  every integer \<open>v\<close>: \<open>assign(v)\<close> succeeds if and only if \<open>lo \<le> v \<le> hi\<close>; when it
  succeeds the only change to the heap is that \<open>r\<close> now holds \<open>v\<close>; when \<open>v < lo\<close> or
  \<open>v > hi\<close> it fails with \<open>OutOfRange\<close> and the heap, the stored value included, is
  unchanged.
\<close>

theorem RangeValue_assign_iff:
  assumes "deref h r = Some (RangeValue (RangeType i n lo hi) x)"
  shows "(fst (RangeValue_assign h r v) = Inr () \<longleftrightarrow> lo \<le> v \<and> v \<le> hi)
       \<and> (lo \<le> v \<and> v \<le> hi \<longrightarrow>
            snd (RangeValue_assign h r v) = h[r := RangeValue (RangeType i n lo hi) v]
          \<and> deref (snd (RangeValue_assign h r v)) r = Some (RangeValue (RangeType i n lo hi) v))
       \<and> (v < lo \<or> v > hi \<longrightarrow> RangeValue_assign h r v = (Inl (OutOfRange v), h))"
  using assms by (auto simp: RangeValue_assign_def deref_def split: if_splits)

theorem RangeValue_assign_iff_witness:
  "deref digit_heap 0 = Some (RangeValue (RangeType 0 (Some ''Digit'') 0 9) 5)
   \<and> RangeValue_assign digit_heap 0 10 = (Inl (OutOfRange 10), digit_heap)
   \<and> RangeValue_assign digit_heap 0 7
       = (Inr (), [RangeValue (RangeType 0 (Some ''Digit'') 0 9) 7])"
proof -
  have d: "deref digit_heap 0 = Some (RangeValue (RangeType 0 (Some ''Digit'') 0 9) 5)"
    by (simp add: deref_def digit_heap_def)
  have u: "digit_heap[0 := RangeValue (RangeType 0 (Some ''Digit'') 0 9) 7]
             = [RangeValue (RangeType 0 (Some ''Digit'') 0 9) 7]"
    by (simp add: digit_heap_def)
  show ?thesis
    using d u RangeValue_assign_iff [OF d, of 10] RangeValue_assign_iff [OF d, of 7]
    by (simp add: prod_eq_iff)
qed

text \<open>
  C2, as the code behaves. \<open>Type.make\<close> on a range declaration compares the bounds with
  nothing: for all \<open>lo\<close> and \<open>hi\<close>, also for \<open>lo > hi\<close>, it succeeds, and the new
  RangeType carries exactly the declared bounds and the given name. It leaves the
  environment alone.
\<close>

theorem make_Range_bounds:
  "\<exists>t. make (Range lo hi) name w = (Inr t, w\<lparr>next_id := Suc (next_id w)\<rparr>)
       \<and> low t = lo \<and> high t = hi \<and> tname t = name \<and> tid t = next_id w"
  by simp

theorem make_Range_bounds_witness:
  "\<exists>t. make (Range 5 3) None w0 = (Inr t, w0\<lparr>next_id := Suc (next_id w0)\<rparr>)
       \<and> low t = 5 \<and> high t = 3 \<and> tname t = None \<and> tid t = next_id w0"
  using make_Range_bounds [of 5 3 None w0] .

text \<open>
  The range \<open>5..3\<close> is accepted: no \<open>InvalidRange\<close> is raised for \<open>low > high\<close>.
\<close>

theorem make_Range_unchecked:
  "(3::int) < 5 \<and>
   make (Range 5 3) None w0 = (Inr (RangeType 0 None 5 3), w0\<lparr>next_id := 1\<rparr>)"
  by (simp add: w0_def)




text \<open>
  C4. For an alias declaration naming a type bound somewhere in the environment chain,
  \<open>Type.make\<close> returns the Type registered under that name itself, allocation stamp
  included, and changes nothing: no object is created and no stamp is used up. If the
  name is bound nowhere in the chain it fails with \<open>UnknownType\<close>.
\<close>

theorem make_Alias_same_object:
  "(bound_in_chain (env w) n \<longrightarrow>
      (\<exists>t. getType (env w) n = Some t \<and> make (Alias n) name w = (Inr t, w)))
   \<and> (\<not> bound_in_chain (env w) n \<longrightarrow> make (Alias n) name w = (Inl (UnknownType n), w))"
  using getType_None_iff [of "env w" n] by (auto split: option.splits)

theorem make_Alias_same_object_witness:
  "bound_in_chain (env module_world) ''A''
   \<and> getType (env module_world) ''A'' = Some (RangeType 0 (Some ''A'') 0 9)
   \<and> make (Alias ''A'') (Some ''B'') module_world
       = (Inr (RangeType 0 (Some ''A'') 0 9), module_world)
   \<and> \<not> bound_in_chain (env module_world) ''Z''
   \<and> make (Alias ''Z'') (Some ''B'') module_world = (Inl (UnknownType ''Z''), module_world)
   \<and> load_typedecl ''A'' (Range 0 9) w0 = (Inr (), \<lparr>env = prelude, next_id = 1\<rparr>)
   \<and> bound_in_chain prelude ''A''
   \<and> load_typedecl ''B'' (Alias ''A'') \<lparr>env = prelude, next_id = 1\<rparr>
       = (Inr (), \<lparr>env = assignType prelude ''B'' (RangeType 0 (Some ''A'') 0 9), next_id = 1\<rparr>)
   \<and> getType (assignType prelude ''B'' (RangeType 0 (Some ''A'') 0 9)) ''B''
       = getType (assignType prelude ''B'' (RangeType 0 (Some ''A'') 0 9)) ''A''"
proof -
  have b: "bound_in_chain (env module_world) ''A''"
    by (simp add: bound_in_chain_def module_world_def prelude_def)
  have nb: "\<not> bound_in_chain (env module_world) ''Z''"
    by (simp add: bound_in_chain_def module_world_def prelude_def)
  have g: "getType (env module_world) ''A'' = Some (RangeType 0 (Some ''A'') 0 9)"
    by (simp add: module_world_def prelude_def)
  have la: "load_typedecl ''A'' (Range 0 9) w0 = (Inr (), \<lparr>env = prelude, next_id = 1\<rparr>)"
    by (simp add: load_typedecl_def w0_def prelude_def)
  have bp: "bound_in_chain prelude ''A''"
    by (simp add: bound_in_chain_def prelude_def)
  have gp: "getType prelude ''A'' = Some (RangeType 0 (Some ''A'') 0 9)"
    by (simp add: prelude_def)
  have mb: "make (Alias ''A'') (Some ''B'') \<lparr>env = prelude, next_id = 1\<rparr>
       = (Inr (RangeType 0 (Some ''A'') 0 9), \<lparr>env = prelude, next_id = 1\<rparr>)"
    using bp gp make_Alias_same_object [of "\<lparr>env = prelude, next_id = 1\<rparr>" "''A''" "Some ''B''"]
    by simp
  have lb: "load_typedecl ''B'' (Alias ''A'') \<lparr>env = prelude, next_id = 1\<rparr>
       = (Inr (), \<lparr>env = assignType prelude ''B'' (RangeType 0 (Some ''A'') 0 9), next_id = 1\<rparr>)"
    unfolding load_typedecl_def mb by simp
  have same: "getType (assignType prelude ''B'' (RangeType 0 (Some ''A'') 0 9)) ''B''
       = getType (assignType prelude ''B'' (RangeType 0 (Some ''A'') 0 9)) ''A''"
    by (simp add: prelude_def)
  have "make (Alias ''A'') (Some ''B'') module_world
          = (Inr (RangeType 0 (Some ''A'') 0 9), module_world)
      \<and> make (Alias ''Z'') (Some ''B'') module_world = (Inl (UnknownType ''Z''), module_world)"
    using b nb g make_Alias_same_object [of module_world "''A''" "Some ''B''"]
      make_Alias_same_object [of module_world "''Z''" "Some ''B''"]
    by simp
  with b nb g la bp lb same show ?thesis by simp
qed

text \<open>
  C5, as the code behaves. For every Type that is well formed (in its records the field
  names are pairwise distinct and none is \<open>type\<close> or \<open>__proto__\<close>; its either types have
  a first variant, which is not named \<open>type\<close>, \<open>tag\<close> or \<open>__proto__\<close> when it has a record
  type; its arrays are indexed by a range with \<open>0 \<le> high - low + 1 < 2^32\<close>),
  \<open>makeDefaultValue\<close> succeeds, touches no object that existed before, and returns a
  structurally valid default made of new objects only, no object shared between two
  children: a RangeValue holding \<open>low\<close>; an EitherValue whose tag is that of the first
  declared variant, carrying a default nested value exactly when that variant has a
  record type; an ArrayValue with exactly \<open>high - low + 1\<close> children, each a default of
  the element type; a RecordValue with one default child per declared field.
\<close>

theorem makeDefaultValue_valid:
  assumes "well_formed t"
  shows "\<exists>r h'. makeDefaultValue t h = (Inr r, h') \<and> is_default (length h) h' r t
           \<and> length h' = Suc r \<and> (\<exists>ext. h' = h @ ext)"
proof -
  from makeDefaultValue_default(1) [OF assms, of h] obtain r
    where m: "makeDefaultValue t h = (Inr r, snd (makeDefaultValue t h))"
      and d: "is_default (length h) (snd (makeDefaultValue t h)) r t"
      and l: "length (snd (makeDefaultValue t h)) = Suc r"
    by auto
  from makeDefaultValue_extends(1) [of t h]
  have "\<exists>ext. snd (makeDefaultValue t h) = h @ ext" .
  with m d l show ?thesis by blast
qed

theorem makeDefaultValue_valid_witness:
  "well_formed type_T
   \<and> makeDefaultValue type_T [] = (Inr 2, heap_T)
   \<and> is_default 0 heap_T 2 type_T
   \<and> well_formed array_type
   \<and> makeDefaultValue array_type [] = (Inr 3, array_heap)
   \<and> is_default 0 array_heap 3 array_type
   \<and> deref array_heap 3 = Some (ArrayValue array_type [0, 1, 2])"
proof -
  have w1: "well_formed type_T" by (simp add: ex_defs writes_child_def)
  have w2: "well_formed array_type" by (simp add: array_type_def)
  have a: "deref array_heap 3 = Some (ArrayValue array_type [0, 1, 2])"
    by (simp add: deref_def array_heap_def)
  from makeDefaultValue_valid [OF w1, of "[]"] default_type_T
  have d1: "is_default 0 heap_T 2 type_T" by simp
  from makeDefaultValue_valid [OF w2, of "[]"] default_array
  have d2: "is_default 0 array_heap 3 array_type" by simp
  from w1 w2 a d1 d2 default_type_T default_array show ?thesis by simp
qed

text \<open>
  Types that \<open>Type.make\<close> builds and whose default is not of that shape: the array indexed
  by \<open>5..3\<close> has no child, where \<open>high - low + 1\<close> is \<open>-1\<close>; the record with the field \<open>a\<close>
  twice has one child for its two fields, the default of the second; the either type
  without variants has no default at all, its construction ends in a TypeError; nor has
  the array indexed by \<open>0..4294967295\<close>, whose length \<open>2^32\<close> is a RangeError.
\<close>

theorem makeDefaultValue_invalid_defaults:
  "make (Generic ''Array'' [Range 0 1] (Range 5 3)) None w0
     = (Inr (ArrayType 0 None (RangeType 1 None 0 1) (RangeType 2 None 5 3)),
        w0\<lparr>next_id := 3\<rparr>)
   \<and> makeDefaultValue (ArrayType 0 None (RangeType 1 None 0 1) (RangeType 2 None 5 3)) []
       = (Inr 0, [ArrayValue (ArrayType 0 None (RangeType 1 None 0 1) (RangeType 2 None 5 3)) []])
   \<and> int (length ([] :: nat list)) \<noteq> 3 - 5 + 1
   \<and> makeDefaultValue
         (RecordType 0 (Some ''R'') [(''a'', RangeType 1 None 0 1), (''a'', RangeType 2 None 2 3)]) []
       = (Inr 2,
          [RangeValue (RangeType 1 None 0 1) 0, RangeValue (RangeType 2 None 2 3) 2,
           RecordValue
             (RecordType 0 (Some ''R'')
                [(''a'', RangeType 1 None 0 1), (''a'', RangeType 2 None 2 3)])
             [(''a'', 1)]])
   \<and> make (Either []) None w0 = (Inr (EitherType 0 None []), w0\<lparr>next_id := 1\<rparr>)
   \<and> makeDefaultValue (EitherType 0 None []) [] = (Inl TypeError, [])
   \<and> make (Generic ''Array'' [Range 0 1] (Range 0 4294967295)) None w0
     = (Inr (ArrayType 0 None (RangeType 1 None 0 1) (RangeType 2 None 0 4294967295)),
        w0\<lparr>next_id := 3\<rparr>)
   \<and> makeDefaultValue
         (ArrayType 0 None (RangeType 1 None 0 1) (RangeType 2 None 0 4294967295)) []
       = (Inl RangeError, [])"
proof -
  have m1: "make (Generic ''Array'' [Range 0 1] (Range 5 3)) None w0
     = (Inr (ArrayType 0 None (RangeType 1 None 0 1) (RangeType 2 None 5 3)),
        w0\<lparr>next_id := 3\<rparr>)"
    by (simp add: w0_def eval_nat_numeral)
  have m2: "make (Either []) None w0 = (Inr (EitherType 0 None []), w0\<lparr>next_id := 1\<rparr>)"
    by (simp add: w0_def)
  have m3: "make (Generic ''Array'' [Range 0 1] (Range 0 4294967295)) None w0
     = (Inr (ArrayType 0 None (RangeType 1 None 0 1) (RangeType 2 None 0 4294967295)),
        w0\<lparr>next_id := 3\<rparr>)"
    by (simp add: w0_def numeral_3_eq_3)
  have v1: "makeDefaultValue (ArrayType 0 None (RangeType 1 None 0 1) (RangeType 2 None 5 3)) []
       = (Inr 0, [ArrayValue (ArrayType 0 None (RangeType 1 None 0 1) (RangeType 2 None 5 3)) []])"
    by (simp add: array_length_def)
  have v2: "makeDefaultValue
         (RecordType 0 (Some ''R'') [(''a'', RangeType 1 None 0 1), (''a'', RangeType 2 None 2 3)]) []
       = (Inr 2,
          [RangeValue (RangeType 1 None 0 1) 0, RangeValue (RangeType 2 None 2 3) 2,
           RecordValue
             (RecordType 0 (Some ''R'')
                [(''a'', RangeType 1 None 0 1), (''a'', RangeType 2 None 2 3)])
             [(''a'', 1)]])"
    by (simp add: writes_child_def)
  have v3: "makeDefaultValue (EitherType 0 None []) [] = (Inl TypeError, [])" by simp
  have v4: "makeDefaultValue
         (ArrayType 0 None (RangeType 1 None 0 1) (RangeType 2 None 0 4294967295)) []
       = (Inl RangeError, [])"
    by (simp add: array_length_def)
  from m1 m2 m3 v1 v2 v3 v4 show ?thesis by simp
qed

text \<open>
  C6, evaluated where the code departs from it. The default value of \<open>T\<close> is switched to
  the enum variant \<open>B\<close> and back to the record variant \<open>A\<close>, each time by the bare tag.
  Both assignments succeed; the second leaves the value with the tag \<open>A\<close> and no nested
  value: \<open>this[A]\<close> is \<open>undefined\<close>, no default record was built.
\<close>

theorem EitherValue_assign_tag_installs_no_default:
  "fst (make decl_T (Some ''T'') w0) = Inr type_T
   \<and> makeDefaultValue type_T [] = (Inr 2, heap_T)
   \<and> recordtype variant_A \<noteq> None
   \<and> EitherValue_assign heap_T 2 (Tag (tag_of variant_B))
       = (Inr (), heap_T[2 := EitherValue type_T (tag_of variant_B) []])
   \<and> EitherValue_assign (heap_T[2 := EitherValue type_T (tag_of variant_B) []]) 2
         (Tag (tag_of variant_A))
       = (Inr (), heap_T[2 := EitherValue type_T (tag_of variant_A) []])
   \<and> get_prop (heap_T[2 := EitherValue type_T (tag_of variant_A) []]) 2 ''A'' = None"
  by (simp add: make_decl_T default_type_T)
     (simp add: ex_defs tag_of_def EitherValue_assign_def deref_def delete_prop_def
        set_tag_def get_prop_def is_function_def)

text \<open>
  C7, evaluated where the code departs from it. Two default values of \<open>T\<close> have the
  identical type and the same active tag \<open>A\<close>, a record variant; \<open>equals\<close> on them neither
  compares the nested values nor returns: it raises a ReferenceError.
\<close>

theorem EitherValue_equals_record_variant_throws:
  "makeDefaultValue type_T [] = (Inr 2, heap_T)
   \<and> makeDefaultValue type_T heap_T = (Inr 5, heap_TT)
   \<and> EitherValue_equals heap_TT 2 (Ref 5) = Inl ReferenceError"
  by (simp add: default_type_T default_type_T_again)
     (simp add: ex_defs tag_of_def EitherValue_equals_def deref_def same_tag_def
        is_function_def in_object_def)

text \<open>
  C8, as the code behaves. No RecordValue and no ArrayValue has a callable \<open>field\<close>, \<open>at\<close>
  or \<open>assign\<close>: the classes define none, and a child of that name is no function. The
  children are reached as properties. In the default value of a well-formed record type
  every declared field name holds a child, a default of the field's type; in the default
  value of a well-formed array type \<open>items\<close> holds a child at each of the positions
  \<open>0\<close> to \<open>high - low\<close>, a default of the element type, and nothing at any later position.
  What the parent holds is the reference of the child, not a copy: whatever is written to
  the child object afterwards, the parent still leads to that same object, which now
  holds what was written.
\<close>

theorem children_are_properties:
  "(well_formed (RecordType i n fts) \<longrightarrow>
      (\<exists>r h'. makeDefaultValue (RecordType i n fts) h = (Inr r, h')
         \<and> (\<forall>(m, ft) \<in> set fts. \<exists>c k.
               get_prop h' r m = Some c \<and> c < r \<and> is_default k h' c ft
             \<and> (\<forall>x. get_prop (h'[c := x]) r m = Some c \<and> deref (h'[c := x]) c = Some x))))
   \<and> (well_formed (ArrayType j n' vt (RangeType j' n'' lo hi)) \<longrightarrow>
      (\<exists>a g'. makeDefaultValue (ArrayType j n' vt (RangeType j' n'' lo hi)) g = (Inr a, g')
         \<and> (\<forall>p. if int p < hi - lo + 1
                then (\<exists>c k. get_item g' a p = Some c \<and> c < a \<and> is_default k g' c vt
                       \<and> (\<forall>x. get_item (g'[c := x]) a p = Some c
                              \<and> deref (g'[c := x]) c = Some x))
                else get_item g' a p = None)))
   \<and> (deref s v = Some (RecordValue t ps) \<or> deref s v = Some (ArrayValue t cs) \<longrightarrow>
        \<not> callable s v ''field'' \<and> \<not> callable s v ''at'' \<and> \<not> callable s v ''assign'')"
proof -
  have 1: "well_formed (RecordType i n fts) \<longrightarrow>
      (\<exists>r h'. makeDefaultValue (RecordType i n fts) h = (Inr r, h')
         \<and> (\<forall>(m, ft) \<in> set fts. \<exists>c k.
               get_prop h' r m = Some c \<and> c < r \<and> is_default k h' c ft
             \<and> (\<forall>x. get_prop (h'[c := x]) r m = Some c \<and> deref (h'[c := x]) c = Some x)))"
    using record_default_children by blast
  have 2: "well_formed (ArrayType j n' vt (RangeType j' n'' lo hi)) \<longrightarrow>
      (\<exists>a g'. makeDefaultValue (ArrayType j n' vt (RangeType j' n'' lo hi)) g = (Inr a, g')
         \<and> (\<forall>p. if int p < hi - lo + 1
                then (\<exists>c k. get_item g' a p = Some c \<and> c < a \<and> is_default k g' c vt
                       \<and> (\<forall>x. get_item (g'[c := x]) a p = Some c
                              \<and> deref (g'[c := x]) c = Some x))
                else get_item g' a p = None))"
    using array_default_children by blast
  have 3: "deref s v = Some (RecordValue t ps) \<or> deref s v = Some (ArrayValue t cs) \<longrightarrow>
        \<not> callable s v ''field'' \<and> \<not> callable s v ''at'' \<and> \<not> callable s v ''assign''"
    by (auto simp: callable_def is_function_def object_prototype_def)
  from 1 2 3 show ?thesis by blast
qed

theorem children_are_properties_witness:
  "well_formed point_type
   \<and> makeDefaultValue point_type [] = (Inr 1, point_heap)
   \<and> get_prop point_heap 1 ''x'' = Some 0
   \<and> is_default 0 point_heap 0 (RangeType 1 None 0 1)
   \<and> RangeValue_assign point_heap 0 1
       = (Inr (), point_heap[0 := RangeValue (RangeType 1 None 0 1) 1])
   \<and> get_prop (point_heap[0 := RangeValue (RangeType 1 None 0 1) 1]) 1 ''x'' = Some 0
   \<and> deref (point_heap[0 := RangeValue (RangeType 1 None 0 1) 1]) 0
       = Some (RangeValue (RangeType 1 None 0 1) 1)
   \<and> well_formed array_type
   \<and> makeDefaultValue array_type [] = (Inr 3, array_heap)
   \<and> get_item array_heap 3 2 = Some 2
   \<and> is_default 2 array_heap 2 (RangeType 1 None 0 1)
   \<and> get_item (array_heap[2 := RangeValue (RangeType 1 None 0 1) 1]) 3 2 = Some 2
   \<and> deref (array_heap[2 := RangeValue (RangeType 1 None 0 1) 1]) 2
       = Some (RangeValue (RangeType 1 None 0 1) 1)
   \<and> get_item array_heap 3 3 = None
   \<and> deref point_heap 1 = Some (RecordValue point_type [(''x'', 0)])
   \<and> \<not> callable point_heap 1 ''field'' \<and> \<not> callable point_heap 1 ''assign''
   \<and> deref array_heap 3 = Some (ArrayValue array_type [0, 1, 2])
   \<and> \<not> callable array_heap 3 ''at'' \<and> \<not> callable array_heap 3 ''assign''"
proof -
  have w1: "well_formed (RecordType 0 (Some ''Point'') [(''x'', RangeType 1 None 0 1)])"
    by (simp add: writes_child_def)
  have w2: "well_formed (ArrayType 0 None (RangeType 1 None 0 1) (RangeType 2 None 5 7))"
    by simp
  have p: "deref point_heap 1 = Some (RecordValue point_type [(''x'', 0)])"
    by (simp add: deref_def point_heap_def)
  have a: "deref array_heap 3 = Some (ArrayValue array_type [0, 1, 2])"
    by (simp add: deref_def array_heap_def)
  have dp: "makeDefaultValue (RecordType 0 (Some ''Point'') [(''x'', RangeType 1 None 0 1)]) []
              = (Inr 1, point_heap)"
    using default_point by (simp add: point_type_def)
  have da: "makeDefaultValue (ArrayType 0 None (RangeType 1 None 0 1) (RangeType 2 None 5 7)) []
              = (Inr 3, array_heap)"
    using default_array by (simp add: array_type_def)
  have gx: "get_prop point_heap 1 ''x'' = Some 0" using p by (simp add: get_prop_def)
  have g2: "get_item array_heap 3 2 = Some 2" using a by (simp add: get_item_def)
  note rec = children_are_properties
    [of 0 "Some ''Point''" "[(''x'', RangeType 1 None 0 1)]" "[]"
        0 None "RangeType 1 None 0 1" 2 None 5 7 "[]"
        point_heap 1 point_type "[(''x'', 0)]" "[0, 1, 2]"]
  note arr = children_are_properties
    [of 0 "Some ''Point''" "[(''x'', RangeType 1 None 0 1)]" "[]"
        0 None "RangeType 1 None 0 1" 2 None 5 7 "[]"
        array_heap 3 array_type "[(''x'', 0)]" "[0, 1, 2]"]
  from rec [THEN conjunct1, rule_format, OF w1] obtain r h'
    where m1: "makeDefaultValue (RecordType 0 (Some ''Point'') [(''x'', RangeType 1 None 0 1)]) []
                 = (Inr r, h')"
      and b1: "\<forall>(m, ft) \<in> set [(''x'', RangeType 1 None 0 1)]. \<exists>c k.
               get_prop h' r m = Some c \<and> c < r \<and> is_default k h' c ft
             \<and> (\<forall>x. get_prop (h'[c := x]) r m = Some c \<and> deref (h'[c := x]) c = Some x)"
    by blast
  from m1 dp have rh: "r = 1" "h' = point_heap" by simp_all
  from b1 obtain c k where gc: "get_prop h' r ''x'' = Some c"
    and dc: "is_default k h' c (RangeType 1 None 0 1)"
    and lv: "\<forall>x. get_prop (h'[c := x]) r ''x'' = Some c \<and> deref (h'[c := x]) c = Some x"
    by auto
  from gc gx rh have c0: "c = 0" by simp
  from dc have "k = c" by simp
  with dc c0 rh have r1: "is_default 0 point_heap 0 (RangeType 1 None 0 1)" by simp
  from lv c0 rh
  have r2: "get_prop (point_heap[0 := RangeValue (RangeType 1 None 0 1) 1]) 1 ''x'' = Some 0"
    and r3: "deref (point_heap[0 := RangeValue (RangeType 1 None 0 1) 1]) 0
               = Some (RangeValue (RangeType 1 None 0 1) 1)"
    by simp_all
  from arr [THEN conjunct2, THEN conjunct1, rule_format, OF w2] obtain a' g'
    where m2: "makeDefaultValue (ArrayType 0 None (RangeType 1 None 0 1) (RangeType 2 None 5 7)) []
                 = (Inr a', g')"
      and b2: "\<forall>p. if int p < 7 - 5 + 1
                then (\<exists>c k. get_item g' a' p = Some c \<and> c < a'
                       \<and> is_default k g' c (RangeType 1 None 0 1)
                       \<and> (\<forall>x. get_item (g'[c := x]) a' p = Some c
                              \<and> deref (g'[c := x]) c = Some x))
                else get_item g' a' p = None"
    by blast
  from m2 da have ag: "a' = 3" "g' = array_heap" by simp_all
  from b2 [rule_format, of 2] obtain c' k'
    where gc': "get_item g' a' 2 = Some c'"
      and dc': "is_default k' g' c' (RangeType 1 None 0 1)"
      and lv': "\<forall>x. get_item (g'[c' := x]) a' 2 = Some c' \<and> deref (g'[c' := x]) c' = Some x"
    by auto
  from gc' g2 ag have c2: "c' = 2" by simp
  from dc' have "k' = c'" by simp
  with dc' c2 ag have a1: "is_default 2 array_heap 2 (RangeType 1 None 0 1)" by simp
  from lv' c2 ag
  have a3: "get_item (array_heap[2 := RangeValue (RangeType 1 None 0 1) 1]) 3 2 = Some 2"
    and a4: "deref (array_heap[2 := RangeValue (RangeType 1 None 0 1) 1]) 2
               = Some (RangeValue (RangeType 1 None 0 1) 1)"
    by simp_all
  from b2 [rule_format, of 3] ag have a2: "get_item array_heap 3 3 = None" by simp
  from rec [THEN conjunct2, THEN conjunct2] p
  have c1: "\<not> callable point_heap 1 ''field'' \<and> \<not> callable point_heap 1 ''assign''"
    by blast
  from arr [THEN conjunct2, THEN conjunct2] a
  have c3: "\<not> callable array_heap 3 ''at'' \<and> \<not> callable array_heap 3 ''assign''"
    by blast
  have ra: "RangeValue_assign point_heap 0 1
       = (Inr (), point_heap[0 := RangeValue (RangeType 1 None 0 1) 1])"
    by (simp add: RangeValue_assign_def deref_def point_heap_def)
  have wp: "well_formed point_type" using w1 by (simp add: point_type_def)
  have wa: "well_formed array_type" using w2 by (simp add: array_type_def)
  from wp wa default_point default_array gx g2 r1 r2 r3 a1 a2 a3 a4 p a c1 c3 ra show ?thesis by simp
qed

text \<open>
  The default \<open>Point\<close> has no \<open>field\<close> operation and the default array over \<open>5..7\<close> has no
  \<open>at\<close> operation: a call of either is a TypeError.
\<close>

theorem no_field_and_no_at_operation:
  "makeDefaultValue point_type [] = (Inr 1, point_heap)
   \<and> \<not> callable point_heap 1 ''field''
   \<and> makeDefaultValue array_type [] = (Inr 3, array_heap)
   \<and> \<not> callable array_heap 3 ''at''"
  by (simp add: default_point default_array)
     (simp add: callable_def is_function_def object_prototype_def deref_def
        point_heap_def array_heap_def)






section \<open>Further properties of the either values\<close>

text \<open>
  Assignment of a bare tag of the same parent either type, to a value whose \<open>assign\<close> is
  the method and whose current tag is not named after an attribute: the tag is switched
  and the child under the old tag's name is deleted; no object is created.
\<close>

theorem EitherValue_assign_tag_switches:
  assumes "deref h e = Some (EitherValue t tg ps)"
      and "parenttype (tag_type nt) = parenttype (tag_type tg)"
      and "callable h e ''assign''"
      and "tag_name tg \<notin> set [''type'', ''tag'']"
  shows "EitherValue_assign h e (Tag nt) =
           (Inr (), h[e := EitherValue t nt (AList.delete (tag_name tg) ps)])
       \<and> get_prop (snd (EitherValue_assign h e (Tag nt))) e (tag_name tg) = None
       \<and> length (snd (EitherValue_assign h e (Tag nt))) = length h"
proof -
  from assms(1) have le: "e < length h" and he: "h ! e = EitherValue t tg ps"
    by (auto simp: deref_def split: if_splits)
  from assms(1,3) have f: "is_function (EitherValue t tg ps) ''assign''"
    by (simp add: callable_def)
  have a: "EitherValue_assign h e (Tag nt) =
           (Inr (), h[e := EitherValue t nt (AList.delete (tag_name tg) ps)])"
    using assms(1,2,4) f le he by (simp add: EitherValue_assign_def delete_prop_def set_tag_def)
  have "get_prop (h[e := EitherValue t nt (AList.delete (tag_name tg) ps)]) e (tag_name tg) = None"
    using le by (simp add: get_prop_def deref_def delete_conv')
  with a show ?thesis by simp
qed

theorem EitherValue_assign_tag_switches_witness:
  "deref heap_T 2 = Some (EitherValue type_T (tag_of variant_A) [(''A'', 1)])
   \<and> parenttype (tag_type (tag_of variant_B)) = parenttype (tag_type (tag_of variant_A))
   \<and> callable heap_T 2 ''assign''
   \<and> EitherValue_assign heap_T 2 (Tag (tag_of variant_B))
       = (Inr (), heap_T[2 := EitherValue type_T (tag_of variant_B) []])
   \<and> get_prop (heap_T[2 := EitherValue type_T (tag_of variant_B) []]) 2 ''A'' = None"
proof -
  have e: "deref heap_T 2 = Some (EitherValue type_T (tag_of variant_A) [(''A'', 1)])"
    by (simp add: deref_def heap_T_def)
  have p: "parenttype (tag_type (tag_of variant_B)) = parenttype (tag_type (tag_of variant_A))"
    by (simp add: tag_of_def variant_A_def variant_B_def)
  have n: "tag_name (tag_of variant_A) = ''A''" by (simp add: tag_of_def variant_A_def)
  have f: "callable heap_T 2 ''assign''" by (simp add: callable_def e is_function_def)
  have o: "tag_name (tag_of variant_A) \<notin> set [''type'', ''tag'']" by (simp add: n)
  note t = EitherValue_assign_tag_switches [OF e p f o]
  from t have a: "EitherValue_assign heap_T 2 (Tag (tag_of variant_B))
       = (Inr (), heap_T[2 := EitherValue type_T (tag_of variant_B) []])"
    by (simp add: n)
  from t a have "get_prop (heap_T[2 := EitherValue type_T (tag_of variant_B) []]) 2 ''A'' = None"
    by (simp add: n)
  with e p f a show ?thesis by simp
qed

text \<open>
  Assignment of anything that is neither an EitherValue of the identical type nor a tag
  of the same parent type, to a value whose \<open>assign\<close> is the method, fails with
  \<open>Internal\<close> and leaves the heap unchanged.
\<close>

theorem EitherValue_assign_rejects:
  assumes "deref h e = Some (EitherValue t tg ps)"
      and "callable h e ''assign''"
      and "case v of
             Ref s \<Rightarrow> (case deref h s of
                         Some (EitherValue t' tg' ps') \<Rightarrow> tid t' \<noteq> tid t
                       | _ \<Rightarrow> True)
           | Tag nt \<Rightarrow> parenttype (tag_type nt) \<noteq> parenttype (tag_type tg)
           | _ \<Rightarrow> True"
  shows "EitherValue_assign h e v = (Inl Internal, h)"
  using assms
  by (auto simp: EitherValue_assign_def callable_def
           split: jsval.splits option.splits val.splits)

theorem EitherValue_assign_rejects_witness:
  "deref heap_T 2 = Some (EitherValue type_T (tag_of variant_A) [(''A'', 1)])
   \<and> callable heap_T 2 ''assign''
   \<and> EitherValue_assign heap_T 2 (Num 7) = (Inl Internal, heap_T)
   \<and> EitherValue_assign heap_T 2 (Ref 1) = (Inl Internal, heap_T)
   \<and> EitherValue_assign heap_T 2 (Tag (EitherTag (EitherVariant 9 ''B'' 8 None) ''B''))
       = (Inl Internal, heap_T)"
proof -
  have e: "deref heap_T 2 = Some (EitherValue type_T (tag_of variant_A) [(''A'', 1)])"
    by (simp add: deref_def heap_T_def)
  have f: "callable heap_T 2 ''assign''" by (simp add: callable_def e is_function_def)
  have 1: "EitherValue_assign heap_T 2 (Num 7) = (Inl Internal, heap_T)"
    using EitherValue_assign_rejects [OF e f, of "Num 7"] by simp
  have 2: "EitherValue_assign heap_T 2 (Ref 1) = (Inl Internal, heap_T)"
    using EitherValue_assign_rejects [OF e f, of "Ref 1"]
    by (simp add: deref_def heap_T_def)
  have 3: "EitherValue_assign heap_T 2 (Tag (EitherTag (EitherVariant 9 ''B'' 8 None) ''B''))
       = (Inl Internal, heap_T)"
    using EitherValue_assign_rejects
            [OF e f, of "Tag (EitherTag (EitherVariant 9 ''B'' 8 None) ''B'')"]
    by (simp add: tag_of_def variant_A_def)
  from e f 1 2 3 show ?thesis by simp
qed

text \<open>
  \<open>equals\<close> on two EitherValues, the first with \<open>equals\<close> the method: false when the types
  or the tags differ, true when they agree and the tag's name is no property of the
  value, a ReferenceError otherwise.
\<close>

theorem EitherValue_equals_cases:
  assumes "deref h e = Some (EitherValue t tg ps)"
      and "deref h s = Some (EitherValue t' tg' ps')"
      and "callable h e ''equals''"
  shows "EitherValue_equals h e (Ref s) =
           (if tid t \<noteq> tid t' \<or> \<not> same_tag tg tg' then Inr False
            else if in_object (EitherValue t tg ps) (tag_name tg) then Inl ReferenceError
            else Inr True)"
  using assms by (simp add: EitherValue_equals_def callable_def)

theorem EitherValue_equals_cases_witness:
  "deref (heap_T[2 := EitherValue type_T (tag_of variant_B) []]) 2
     = Some (EitherValue type_T (tag_of variant_B) [])
   \<and> callable (heap_T[2 := EitherValue type_T (tag_of variant_B) []]) 2 ''equals''
   \<and> EitherValue_equals (heap_T[2 := EitherValue type_T (tag_of variant_B) []]) 2 (Ref 2)
       = Inr True
   \<and> deref heap_TT 2 = Some (EitherValue type_T (tag_of variant_A) [(''A'', 1)])
   \<and> deref (heap_TT[5 := EitherValue type_T (tag_of variant_B) []]) 5
       = Some (EitherValue type_T (tag_of variant_B) [])
   \<and> callable (heap_TT[5 := EitherValue type_T (tag_of variant_B) []]) 2 ''equals''
   \<and> EitherValue_equals (heap_TT[5 := EitherValue type_T (tag_of variant_B) []]) 2 (Ref 5)
       = Inr False"
proof -
  have b: "deref (heap_T[2 := EitherValue type_T (tag_of variant_B) []]) 2
     = Some (EitherValue type_T (tag_of variant_B) [])"
    by (simp add: deref_def heap_T_def)
  have a2: "deref (heap_TT[5 := EitherValue type_T (tag_of variant_B) []]) 2
     = Some (EitherValue type_T (tag_of variant_A) [(''A'', 1)])"
    by (simp add: deref_def heap_TT_def heap_T_def)
  have a: "deref heap_TT 2 = Some (EitherValue type_T (tag_of variant_A) [(''A'', 1)])"
    by (simp add: deref_def heap_TT_def heap_T_def)
  have b5: "deref (heap_TT[5 := EitherValue type_T (tag_of variant_B) []]) 5
     = Some (EitherValue type_T (tag_of variant_B) [])"
    by (simp add: deref_def heap_TT_def heap_T_def)
  have fb: "callable (heap_T[2 := EitherValue type_T (tag_of variant_B) []]) 2 ''equals''"
    by (simp add: callable_def b is_function_def)
  have fa: "callable (heap_TT[5 := EitherValue type_T (tag_of variant_B) []]) 2 ''equals''"
    by (simp add: callable_def a2 is_function_def)
  have t: "\<not> same_tag (tag_of variant_A) (tag_of variant_B)"
    by (simp add: same_tag_def tag_of_def variant_A_def variant_B_def)
  have nb: "\<not> in_object (EitherValue type_T (tag_of variant_B) []) (tag_name (tag_of variant_B))"
    by (simp add: in_object_def object_prototype_def tag_of_def variant_B_def)
  from EitherValue_equals_cases [OF b b fb] nb
  have 1: "EitherValue_equals (heap_T[2 := EitherValue type_T (tag_of variant_B) []]) 2 (Ref 2)
       = Inr True"
    by (simp add: same_tag_def)
  from EitherValue_equals_cases [OF a2 b5 fa] t
  have 2: "EitherValue_equals (heap_TT[5 := EitherValue type_T (tag_of variant_B) []]) 2 (Ref 5)
       = Inr False"
    by simp
  from a b b5 fb fa 1 2 show ?thesis by simp
qed

end
